theory Spec2Isabelle
  imports Complex_Main
begin

section \<open>JavaScript values\<close>

text \<open>
  The services are Node.js programs; request bodies, principals and database rows are
  JavaScript values. A number is \<open>NaN\<close>, an infinity, or a finite double, kept as the
  real it denotes; comparisons of doubles are exact, while their products and sums are
  rounded by the runtime and belong to it (see \<open>numMul\<close> and \<open>numAdd\<close> below). A
  \<open>Date\<close> object carries its time value in milliseconds, or nothing when it is an
  invalid date.
\<close>

datatype jsnum = NaN | Num real | Infinity | NegInfinity

datatype jsval =
    JUndefined
  | JNull
  | JBool bool
  | JNum jsnum
  | JStr string
  | JDate "int option"
  | JArr "jsval list"
  | JObj "(string \<times> jsval) list"

text \<open>ToBoolean, as used by \<open>!x\<close>, \<open>x && y\<close> and \<open>x || y\<close>.\<close>

fun truthy :: "jsval \<Rightarrow> bool" where
  "truthy JUndefined = False"
| "truthy JNull = False"
| "truthy (JBool b) = b"
| "truthy (JNum NaN) = False"
| "truthy (JNum (Num x)) = (x \<noteq> 0)"
| "truthy (JNum Infinity) = True"
| "truthy (JNum NegInfinity) = True"
| "truthy (JStr s) = (s \<noteq> [])"
| "truthy (JDate t) = True"
| "truthy (JArr xs) = True"
| "truthy (JObj kvs) = True"

definition js_or :: "jsval \<Rightarrow> jsval \<Rightarrow> jsval" where
  "js_or a b = (if truthy a then a else b)"

text \<open>
  Strict equality \<open>===\<close>. \<open>NaN\<close> equals nothing; arrays, objects and dates are compared
  by reference, and the two operands of every comparison modelled here come from
  different places (a database row, a request, a literal), so they are never the same
  reference.
\<close>

fun isNaN :: "jsnum \<Rightarrow> bool" where
  "isNaN NaN = True"
| "isNaN n = False"

fun strict_eq :: "jsval \<Rightarrow> jsval \<Rightarrow> bool" where
  "strict_eq JUndefined JUndefined = True"
| "strict_eq JNull JNull = True"
| "strict_eq (JBool a) (JBool b) = (a = b)"
| "strict_eq (JNum x) (JNum y) = (\<not> isNaN x \<and> x = y)"
| "strict_eq (JStr s) (JStr t) = (s = t)"
| "strict_eq a b = False"

text \<open>
  Property read \<open>v.k\<close> for a key that no prototype defines (\<open>price\<close>, \<open>vendorId\<close>):
  a \<open>TypeError\<close> (\<open>None\<close>) on \<open>undefined\<close> and \<open>null\<close>, the stored value on an
  object that has the key, \<open>undefined\<close> otherwise.
\<close>

fun getProp :: "jsval \<Rightarrow> string \<Rightarrow> jsval option" where
  "getProp JUndefined k = None"
| "getProp JNull k = None"
| "getProp (JObj kvs) k = Some (case map_of kvs k of None \<Rightarrow> JUndefined | Some v \<Rightarrow> v)"
| "getProp v k = Some JUndefined"

text \<open>\<open>a < b\<close> and \<open>a <= b\<close> on numbers: false as soon as an operand is \<open>NaN\<close>.\<close>

fun num_lt :: "jsnum \<Rightarrow> jsnum \<Rightarrow> bool" where
  "num_lt NaN b = False"
| "num_lt a NaN = False"
| "num_lt (Num x) (Num y) = (x < y)"
| "num_lt Infinity b = False"
| "num_lt a NegInfinity = False"
| "num_lt a b = True"

fun num_le :: "jsnum \<Rightarrow> jsnum \<Rightarrow> bool" where
  "num_le NaN b = False"
| "num_le a NaN = False"
| "num_le (Num x) (Num y) = (x \<le> y)"
| "num_le NegInfinity b = True"
| "num_le a Infinity = True"
| "num_le a b = False"

subsection \<open>The runtime and the collaborators of a request\<close>

text \<open>
  What a handler takes from outside its own code: the built-in conversions of the
  JavaScript runtime, the clock, the venue service and the type checks of the database
  columns. They are parameters of every handler.
  \<^item> \<open>parseInt\<close>, \<open>parseFloat\<close>: the global functions of the same name;
  \<^item> \<open>parseDate\<close>: the time value of \<open>new Date(v)\<close> for a \<open>v\<close> that is not a \<open>Date\<close>;
  \<^item> \<open>toStringOf\<close>: \<open>v.toString()\<close> for a \<open>v\<close> that is not a string (\<open>None\<close>: it throws);
  \<^item> \<open>numMul\<close>, \<open>numAdd\<close>: \<open>a * b\<close> and \<open>a + b\<close> on two numbers, as the runtime
    computes them in IEEE double arithmetic (rounded, not associative, overflowing to
    an infinity);
  \<^item> \<open>plusCoerce\<close>: \<open>a + b\<close> when an operand is not a number (string concatenation
    and the other coercions of \<open>+\<close>);
  \<^item> \<open>now\<close>: the time value of \<open>new Date()\<close>;
  \<^item> \<open>getVenue\<close>: the body of the venue service's answer to
    \<open>GET /api/venue/venues/:venueId\<close> (\<open>None\<close>: the call throws);
  \<^item> \<open>isInteger\<close>, \<open>isFloat\<close>, \<open>isDateOnly\<close>: the values the database accepts in an
    INTEGER, a FLOAT and a DATEONLY column.
\<close>

record env =
  parseInt :: "jsval \<Rightarrow> jsnum"
  parseFloat :: "jsval \<Rightarrow> jsnum"
  parseDate :: "jsval \<Rightarrow> int option"
  toStringOf :: "jsval \<Rightarrow> string option"
  numMul :: "jsnum \<Rightarrow> jsnum \<Rightarrow> jsnum"
  numAdd :: "jsnum \<Rightarrow> jsnum \<Rightarrow> jsnum"
  plusCoerce :: "jsval \<Rightarrow> jsval \<Rightarrow> jsval"
  now :: int
  getVenue :: "jsval \<Rightarrow> jsval option"
  isInteger :: "jsval \<Rightarrow> bool"
  isFloat :: "jsval \<Rightarrow> bool"
  isDateOnly :: "jsval \<Rightarrow> bool"

definition js_toString :: "env \<Rightarrow> jsval \<Rightarrow> string option" where
  "js_toString e v =
     (case v of
        JUndefined \<Rightarrow> None
      | JNull \<Rightarrow> None
      | JStr s \<Rightarrow> Some s
      | _ \<Rightarrow> toStringOf e v)"

definition newDate :: "env \<Rightarrow> jsval \<Rightarrow> int option" where
  "newDate e v = (case v of JDate t \<Rightarrow> t | _ \<Rightarrow> parseDate e v)"

definition js_add :: "env \<Rightarrow> jsval \<Rightarrow> jsval \<Rightarrow> jsval" where
  "js_add e a b =
     (case (a, b) of
        (JNum x, JNum y) \<Rightarrow> JNum (numAdd e x y)
      | _ \<Rightarrow> plusCoerce e a b)"

text \<open>\<open>d1 < d2\<close> on two dates: false when either is invalid.\<close>

definition date_lt :: "int option \<Rightarrow> int option \<Rightarrow> bool" where
  "date_lt a b = (case (a, b) of (Some x, Some y) \<Rightarrow> x < y | _ \<Rightarrow> False)"

section \<open>Booking service\<close>

subsection \<open>Principal, request body, responses\<close>

text \<open>
  \<open>req.user\<close>, as \<open>authenticateJWT\<close> leaves it: the id is a string on the gateway path
  (the \<open>x-user-id\<close> header) and whatever the token carries on the direct path.
\<close>

record principal =
  user_id :: jsval
  user_role :: string

type_synonym body = "string \<rightharpoonup> jsval"

definition field :: "body \<Rightarrow> string \<Rightarrow> jsval" where
  "field b k = (case b k of None \<Rightarrow> JUndefined | Some v \<Rightarrow> v)"

text \<open>
  How a handler refuses: \<open>Error code message\<close> is \<open>errorResponse(res, code, message)\<close>
  (or the same JSON written directly), and \<open>Caught code\<close> is a \<open>catch\<close> that answers
  with the message of the exception it caught. A handler's result is a refusal
  (\<open>Inl\<close>) or the payload of its success response (\<open>Inr\<close>).
\<close>

datatype failure = Error nat string | Caught nat

text \<open>Sequencing of steps that may answer early.\<close>

definition andThen :: "'e + 'a \<Rightarrow> ('a \<Rightarrow> 'e + 'b) \<Rightarrow> 'e + 'b" where
  "andThen r f = (case r of Inl e \<Rightarrow> Inl e | Inr x \<Rightarrow> f x)"

subsection \<open>The Booking model\<close>

text \<open>
  The attributes of \<open>sequelize.define('Booking', ...)\<close>. A row keeps the JavaScript
  values of its attributes; its primary key is the key of the table.
\<close>

record booking =
  userId :: jsval
  venueId :: jsval
  vendorId :: jsval
  date :: jsval
  guestCount :: jsval
  pricingType :: jsval
  flatPrice :: jsval
  perHeadPrice :: jsval
  minGuests :: jsval
  additionalServices :: jsval
  totalPrice :: jsval
  status :: jsval

record db =
  bookings :: "nat \<rightharpoonup> booking"
  nextId :: nat

definition notNull :: "jsval \<Rightarrow> bool" where
  "notNull v = (v \<noteq> JUndefined \<and> v \<noteq> JNull)"

definition nullable :: "(jsval \<Rightarrow> bool) \<Rightarrow> jsval \<Rightarrow> bool" where
  "nullable P v = (v = JUndefined \<or> v = JNull \<or> P v)"

definition bookingStatuses :: "jsval list" where
  "bookingStatuses = [JStr ''pending'', JStr ''confirmed'', JStr ''cancelled'']"

text \<open>The column types and \<open>allowNull: false\<close> constraints of the model definition.\<close>

definition Booking_valid :: "env \<Rightarrow> booking \<Rightarrow> bool" where
  "Booking_valid e v =
     (notNull (userId v) \<and> isInteger e (userId v)
    \<and> notNull (venueId v) \<and> isInteger e (venueId v)
    \<and> notNull (vendorId v) \<and> isInteger e (vendorId v)
    \<and> notNull (date v) \<and> isDateOnly e (date v)
    \<and> notNull (guestCount v) \<and> isInteger e (guestCount v)
    \<and> pricingType v \<in> set [JStr ''flat'', JStr ''per_head'']
    \<and> nullable (isFloat e) (flatPrice v)
    \<and> nullable (isFloat e) (perHeadPrice v)
    \<and> nullable (isInteger e) (minGuests v)
    \<and> notNull (totalPrice v) \<and> isFloat e (totalPrice v)
    \<and> nullable (\<lambda>s. s \<in> set bookingStatuses) (status v))"

text \<open>
  \<open>Booking.create(values)\<close>: throws (\<open>None\<close>) when a constraint fails, else inserts the
  row under a fresh key, with the default of \<open>status\<close> filled in.
\<close>

definition Booking_create :: "env \<Rightarrow> db \<Rightarrow> booking \<Rightarrow> (nat \<times> booking \<times> db) option" where
  "Booking_create e d v =
     (if Booking_valid e v then
        (let row = (if status v = JUndefined then v\<lparr>status := JStr ''pending''\<rparr> else v);
             k = nextId d
         in Some (k, row, d\<lparr>bookings := (bookings d)(k \<mapsto> row), nextId := Suc k\<rparr>))
      else None)"

definition findByPk :: "db \<Rightarrow> nat \<Rightarrow> booking option" where
  "findByPk d k = bookings d k"

subsection \<open>POST /api/booking/bookings\<close>

text \<open>
  The handler, in the order of the source. Each step either answers early (\<open>Inl\<close>) or
  hands its result to the next one. A principal's id is a primitive value, so the log
  lines, which only format it, do not throw.
\<close>

text \<open>
  Whose booking it is: the authenticated user, or for an admin the \<open>userId\<close> of the
  body. The warning logged for a non-admin who names a user calls \<open>toString\<close> on both
  ids; a throw there reaches the handler's \<open>catch\<close>.
\<close>

definition requestedUserId :: "env \<Rightarrow> principal \<Rightarrow> body \<Rightarrow> failure + jsval" where
  "requestedUserId e p b =
     (if user_role p \<noteq> ''admin'' then
        (if truthy (field b ''userId'')
            \<and> (js_toString e (field b ''userId'') = None \<or> js_toString e (user_id p) = None)
         then Inl (Caught 400)
         else Inr (user_id p))
      else if \<not> truthy (field b ''userId'') then
        Inl (Error 400 ''userId is required when admin creates booking for a user'')
      else Inr (field b ''userId''))"

definition requiredFields :: "jsval \<Rightarrow> body \<Rightarrow> failure + unit" where
  "requiredFields uid b =
     (if \<not> truthy uid then Inl (Error 400 ''userId is required'')
      else if \<not> truthy (field b ''venueId'') then Inl (Error 400 ''venueId is required'')
      else if \<not> truthy (field b ''vendorId'') then Inl (Error 400 ''vendorId is required'')
      else Inr ())"

text \<open>
  The venue lookup and the comparison of the two vendor ids, inside their own
  \<open>try\<close>: a failed call, a venue without \<open>vendorId\<close> and a throwing \<open>toString\<close> all
  answer 500.
\<close>

definition verifyVenue :: "env \<Rightarrow> body \<Rightarrow> failure + unit" where
  "verifyVenue e b =
     (case getVenue e (field b ''venueId'') of
        None \<Rightarrow> Inl (Error 500 ''Error verifying venue ownership'')
      | Some venue \<Rightarrow>
         (case getProp venue ''vendorId'' of
            None \<Rightarrow> Inl (Error 500 ''Error verifying venue ownership'')
          | Some vv \<Rightarrow>
             (case js_toString e vv of
                None \<Rightarrow> Inl (Error 500 ''Error verifying venue ownership'')
              | Some s1 \<Rightarrow>
                 (case js_toString e (field b ''vendorId'') of
                    None \<Rightarrow> Inl (Error 500 ''Error verifying venue ownership'')
                  | Some s2 \<Rightarrow>
                     if s1 \<noteq> s2 then Inl (Error 400 ''vendorId does not match the venue's vendor'')
                     else Inr ()))))"

text \<open>\<open>guests\<close> stands in for a missing \<open>guestCount\<close>; the count is then coerced.\<close>

definition rawGuestCount :: "body \<Rightarrow> jsval" where
  "rawGuestCount b =
     (if \<not> truthy (field b ''guestCount'') \<and> truthy (field b ''guests'')
      then field b ''guests'' else field b ''guestCount'')"

definition validGuestCount :: "env \<Rightarrow> body \<Rightarrow> failure + jsnum" where
  "validGuestCount e b =
     (let gc = rawGuestCount b in
      if \<not> truthy gc \<or> isNaN (parseInt e gc) \<or> num_le (parseInt e gc) (Num 0)
      then Inl (Error 400 ''Valid guestCount is required'')
      else Inr (parseInt e gc))"

definition validDate :: "env \<Rightarrow> body \<Rightarrow> failure + unit" where
  "validDate e b =
     (if \<not> truthy (field b ''date'') then Inl (Error 400 ''Booking date is required'')
      else if date_lt (newDate e (field b ''date'')) (Some (now e))
      then Inl (Error 400 ''Booking date must be in the future'')
      else Inr ())"

text \<open>The destructuring default \<open>pricingType = 'flat'\<close> applies to \<open>undefined\<close> only.\<close>

definition pricingTypeOf :: "body \<Rightarrow> jsval" where
  "pricingTypeOf b =
     (if field b ''pricingType'' = JUndefined then JStr ''flat'' else field b ''pricingType'')"

definition quoted :: "string \<Rightarrow> string" where
  "quoted s = [CHR 0x22] @ s @ [CHR 0x22]"

text \<open>The text of a template literal \<open>`${v}`\<close> for a primitive \<open>v\<close>.\<close>

definition template :: "env \<Rightarrow> jsval \<Rightarrow> string" where
  "template e v = (case js_toString e v of None \<Rightarrow> [] | Some s \<Rightarrow> s)"

text \<open>\<open>minGuests\<close> after its defaulting: 1 when not supplied, else coerced.\<close>

definition minGuestsOf :: "env \<Rightarrow> body \<Rightarrow> jsnum" where
  "minGuestsOf e b =
     (if \<not> truthy (field b ''minGuests'') then Num 1 else parseInt e (field b ''minGuests''))"

text \<open>
  The pricing branch. Its result is the normalised \<open>flatPrice\<close>, \<open>perHeadPrice\<close> and
  \<open>minGuests\<close> and the base \<open>totalPrice\<close>; the argument \<open>g\<close> is the coerced guest count.
\<close>

definition basePrice :: "env \<Rightarrow> body \<Rightarrow> jsnum \<Rightarrow> failure + (jsval \<times> jsval \<times> jsval \<times> jsval)" where
  "basePrice e b g =
     (let fp = field b ''flatPrice''; php = field b ''perHeadPrice''; mg = field b ''minGuests'' in
      if strict_eq (pricingTypeOf b) (JStr ''flat'') then
        (if \<not> truthy fp \<or> isNaN (parseFloat e fp) \<or> num_le (parseFloat e fp) (Num 0)
         then Inl (Error 400 ''flatPrice is required for flat pricing type'')
         else Inr (JNum (parseFloat e fp), php, mg, JNum (parseFloat e fp)))
      else if strict_eq (pricingTypeOf b) (JStr ''per_head'') then
        (if \<not> truthy php \<or> isNaN (parseFloat e php) \<or> num_le (parseFloat e php) (Num 0)
         then Inl (Error 400 ''perHeadPrice is required for per_head pricing type'')
         else
           (let m = minGuestsOf e b in
            if num_lt g m
            then Inl (Error 400 (''Guest count ('' @ template e (JNum g)
                                 @ '') below minimum required ('' @ template e (JNum m) @ '')''))
            else Inr (fp, JNum (parseFloat e php), JNum m, JNum (numMul e g (parseFloat e php)))))
      else Inl (Error 400 (''Invalid pricingType. Must be '' @ quoted ''flat'' @ '' or '' @ quoted ''per_head'' @ ''.'')))"

text \<open>
  \<open>additionalServices.reduce((sum, s) => sum + (s.price || 0), 0)\<close>, from the left;
  reading \<open>price\<close> of an item that is \<open>null\<close> throws.
\<close>

fun servicesSum :: "env \<Rightarrow> jsval list \<Rightarrow> jsval \<Rightarrow> jsval option" where
  "servicesSum e [] acc = Some acc"
| "servicesSum e (s # ss) acc =
     (case getProp s ''price'' of
        None \<Rightarrow> None
      | Some p \<Rightarrow> servicesSum e ss (js_add e acc (js_or p (JNum (Num 0)))))"

definition addServices :: "env \<Rightarrow> jsval \<Rightarrow> jsval \<Rightarrow> failure + jsval" where
  "addServices e services price =
     (case services of
        JArr items \<Rightarrow>
          (case servicesSum e items (JNum (Num 0)) of
             None \<Rightarrow> Inl (Caught 400)
           | Some s \<Rightarrow> Inr (js_add e price s))
      | _ \<Rightarrow> Inr price)"

text \<open>
  The checks before pricing, in the source's order; they yield the user id of the
  booking and the coerced guest count.
\<close>

definition admitted :: "env \<Rightarrow> principal \<Rightarrow> body \<Rightarrow> failure + (jsval \<times> jsnum)" where
  "admitted e p b =
     andThen (requestedUserId e p b) (\<lambda>uid.
     andThen (requiredFields uid b) (\<lambda>_.
     andThen (verifyVenue e b) (\<lambda>_.
     andThen (validGuestCount e b) (\<lambda>g.
     andThen (validDate e b) (\<lambda>_. Inr (uid, g))))))"

text \<open>The object handed to \<open>Booking.create\<close>, or the early answer.\<close>

definition bookingValues :: "env \<Rightarrow> principal \<Rightarrow> body \<Rightarrow> failure + booking" where
  "bookingValues e p b =
     andThen (admitted e p b) (\<lambda>(uid, g).
     andThen (basePrice e b g) (\<lambda>(fp, php, mg, base).
     andThen (addServices e (field b ''additionalServices'') base) (\<lambda>price.
       Inr \<lparr> userId = uid,
             venueId = field b ''venueId'',
             vendorId = field b ''vendorId'',
             date = field b ''date'',
             guestCount = JNum g,
             pricingType = pricingTypeOf b,
             flatPrice = fp,
             perHeadPrice = php,
             minGuests = mg,
             additionalServices = field b ''additionalServices'',
             totalPrice = price,
             status = js_or (field b ''status'') (JStr ''pending'') \<rparr>)))"

text \<open>
  The whole handler on the database: a throwing \<open>Booking.create\<close> reaches the
  \<open>catch\<close>, which answers 400 and leaves the table as it was; success answers 201
  with the new row.
\<close>

definition createBooking :: "env \<Rightarrow> principal \<Rightarrow> body \<Rightarrow> db \<Rightarrow> (failure + nat \<times> booking) \<times> db" where
  "createBooking e p b d =
     (case bookingValues e p b of
        Inl r \<Rightarrow> (Inl r, d)
      | Inr v \<Rightarrow>
         (case Booking_create e d v of
            None \<Rightarrow> (Inl (Caught 400), d)
          | Some (k, row, d') \<Rightarrow> (Inr (k, row), d')))"

subsection \<open>Access to one booking\<close>

text \<open>\<open>a.toString() === b.toString()\<close>; \<open>None\<close> when either call throws.\<close>

definition sameId :: "env \<Rightarrow> jsval \<Rightarrow> jsval \<Rightarrow> bool option" where
  "sameId e a b =
     (case js_toString e a of
        None \<Rightarrow> None
      | Some s \<Rightarrow> (case js_toString e b of None \<Rightarrow> None | Some t \<Rightarrow> Some (s = t)))"

text \<open>
  The condition of \<open>requireBookingOwnership\<close>, with the short-circuit order of
  \<open>||\<close> and \<open>&&\<close>: admin, or the booking's user, or the vendor of the booking. The
  route always carries the \<open>:id\<close> parameter, so the middleware's test for a missing
  id never answers.
\<close>

definition mayAccess :: "env \<Rightarrow> principal \<Rightarrow> booking \<Rightarrow> bool option" where
  "mayAccess e p bk =
     (if user_role p = ''admin'' then Some True
      else
        (case (if truthy (userId bk) then sameId e (userId bk) (user_id p) else Some False) of
           None \<Rightarrow> None
         | Some True \<Rightarrow> Some True
         | Some False \<Rightarrow>
             (if user_role p = ''vendor'' \<and> truthy (vendorId bk)
              then sameId e (vendorId bk) (user_id p)
              else Some False)))"

definition requireBookingOwnership :: "env \<Rightarrow> principal \<Rightarrow> nat \<Rightarrow> db \<Rightarrow> failure + booking" where
  "requireBookingOwnership e p k d =
     (case findByPk d k of
        None \<Rightarrow> Inl (Error 404 ''Booking not found'')
      | Some bk \<Rightarrow>
         (case mayAccess e p bk of
            None \<Rightarrow> Inl (Error 500 ''Error verifying booking ownership'')
          | Some True \<Rightarrow> Inr bk
          | Some False \<Rightarrow> Inl (Error 403 ''You do not have permission to access this booking'')))"

text \<open>
  \<open>instance.update(values)\<close>: the ORM sets the keys that are attributes of the model
  and drops every other key. The table is created from the model
  (\<open>sequelize.sync()\<close>), so it has no other column either.
\<close>

definition setAttribute :: "string \<Rightarrow> jsval \<Rightarrow> booking \<Rightarrow> booking" where
  "setAttribute k v bk =
     (if k = ''userId'' then bk\<lparr>userId := v\<rparr>
      else if k = ''venueId'' then bk\<lparr>venueId := v\<rparr>
      else if k = ''vendorId'' then bk\<lparr>vendorId := v\<rparr>
      else if k = ''date'' then bk\<lparr>date := v\<rparr>
      else if k = ''guestCount'' then bk\<lparr>guestCount := v\<rparr>
      else if k = ''pricingType'' then bk\<lparr>pricingType := v\<rparr>
      else if k = ''flatPrice'' then bk\<lparr>flatPrice := v\<rparr>
      else if k = ''perHeadPrice'' then bk\<lparr>perHeadPrice := v\<rparr>
      else if k = ''minGuests'' then bk\<lparr>minGuests := v\<rparr>
      else if k = ''additionalServices'' then bk\<lparr>additionalServices := v\<rparr>
      else if k = ''totalPrice'' then bk\<lparr>totalPrice := v\<rparr>
      else if k = ''status'' then bk\<lparr>status := v\<rparr>
      else bk)"

fun setAttributes :: "(string \<times> jsval) list \<Rightarrow> booking \<Rightarrow> booking" where
  "setAttributes [] bk = bk"
| "setAttributes ((k, v) # kvs) bk = setAttributes kvs (setAttribute k v bk)"

definition Booking_update :: "nat \<Rightarrow> booking \<Rightarrow> (string \<times> jsval) list \<Rightarrow> db \<Rightarrow> booking \<times> db" where
  "Booking_update k bk kvs d =
     (let bk' = setAttributes kvs bk in (bk', d\<lparr>bookings := (bookings d)(k \<mapsto> bk')\<rparr>))"

subsection \<open>PUT /api/booking/bookings/:id/status\<close>

text \<open>
  \<open>Math.ceil((bookingDate - currentDate) / (1000 * 60 * 60 * 24))\<close>; \<open>None\<close> is
  \<open>NaN\<close>, for a date that does not parse.
\<close>

definition daysDifference :: "env \<Rightarrow> jsval \<Rightarrow> int option" where
  "daysDifference e dt =
     (case newDate e dt of
        None \<Rightarrow> None
      | Some t \<Rightarrow> Some \<lceil>real_of_int (t - now e) / 86400000\<rceil>)"

text \<open>
  The decision of the handler for a booking the principal may access: a refusal,
  \<open>Inr False\<close> when the status is not changing, \<open>Inr True\<close> when the new status is to be
  written.
\<close>

definition statusDecision :: "env \<Rightarrow> principal \<Rightarrow> booking \<Rightarrow> jsval \<Rightarrow> failure + bool" where
  "statusDecision e p bk newStatus =
     (if \<not> truthy newStatus \<or> newStatus \<notin> set bookingStatuses then
        Inl (Error 400 ''Invalid status value'')
      else if strict_eq (status bk) newStatus then Inr False
      else if strict_eq newStatus (JStr ''confirmed'') then
        (if user_role p \<noteq> ''admin'' then
           (if user_role p \<noteq> ''vendor'' then
              Inl (Error 403 ''Only the venue vendor or administrators can confirm bookings'')
            else
              (case sameId e (vendorId bk) (user_id p) of
                 None \<Rightarrow> Inl (Error 500 ''Failed to update booking status'')
               | Some False \<Rightarrow>
                   Inl (Error 403 ''Only the venue vendor or administrators can confirm bookings'')
               | Some True \<Rightarrow> Inr True))
         else Inr True)
      else if strict_eq newStatus (JStr ''cancelled'') then
        (if strict_eq (status bk) (JStr ''confirmed'') then
           (if (case daysDifference e (date bk) of None \<Rightarrow> False | Some n \<Rightarrow> n < 3)
               \<and> user_role p = ''user''
            then Inl (Error 403 ''Cannot cancel confirmed booking with less than 3 days notice'')
            else Inr True)
         else Inr True)
      else Inr True)"

text \<open>The route: ownership middleware, decision, write. Success answers the booking.\<close>

definition updateBookingStatus ::
  "env \<Rightarrow> principal \<Rightarrow> body \<Rightarrow> nat \<Rightarrow> db \<Rightarrow> (failure + booking) \<times> db" where
  "updateBookingStatus e p b k d =
     (case requireBookingOwnership e p k d of
        Inl r \<Rightarrow> (Inl r, d)
      | Inr bk \<Rightarrow>
         (case statusDecision e p bk (field b ''status'') of
            Inl r \<Rightarrow> (Inl r, d)
          | Inr False \<Rightarrow> (Inr bk, d)
          | Inr True \<Rightarrow>
              (let (bk', d') = Booking_update k bk [(''status'', field b ''status'')] d
               in (Inr bk', d'))))"

subsection \<open>DELETE /api/booking/bookings/:id\<close>

text \<open>
  Success answers \<open>{message: 'Booking successfully deleted', success: true}\<close>, which
  carries nothing of the booking.
\<close>

definition deleteBooking ::
  "env \<Rightarrow> principal \<Rightarrow> body \<Rightarrow> nat \<Rightarrow> db \<Rightarrow> (failure + unit) \<times> db" where
  "deleteBooking e p b k d =
     (case requireBookingOwnership e p k d of
        Inl r \<Rightarrow> (Inl r, d)
      | Inr bk \<Rightarrow>
         (case (if user_role p \<noteq> ''admin''
                then map_option Not (sameId e (userId bk) (user_id p))
                else Some False) of
            None \<Rightarrow> (Inl (Error 500 ''Failed to delete booking''), d)
          | Some True \<Rightarrow>
              (Inl (Error 403 ''Only administrators or the booking owner can delete bookings''), d)
          | Some False \<Rightarrow>
              (let (bk', d') =
                 Booking_update k bk
                   [(''status'', JStr ''cancelled''),
                    (''deletedBy'', user_id p),
                    (''deletedAt'', JDate (Some (now e))),
                    (''deletionReason'', js_or (field b ''reason'') (JStr ''User requested deletion''))]
                   d
               in (Inr (), d'))))"

subsection \<open>GET /api/booking/bookings/:id\<close>

definition getBooking :: "env \<Rightarrow> principal \<Rightarrow> nat \<Rightarrow> db \<Rightarrow> failure + booking" where
  "getBooking e p k d =
     (case findByPk d k of
        None \<Rightarrow> Inl (Error 404 ''Booking not found'')
      | Some bk \<Rightarrow>
         (case (if user_role p = ''vendor'' then sameId e (vendorId bk) (user_id p) else Some False) of
            None \<Rightarrow> Inl (Error 500 ''Failed to retrieve booking'')
          | Some isVendor \<Rightarrow>
             (case sameId e (userId bk) (user_id p) of
                None \<Rightarrow> Inl (Error 500 ''Failed to retrieve booking'')
              | Some isOwner \<Rightarrow>
                  if user_role p \<noteq> ''admin'' \<and> \<not> isVendor \<and> \<not> isOwner
                  then Inl (Error 403 ''You do not have permission to access this booking'')
                  else Inr bk)))"

section \<open>Service-provider service: quotes and invoices\<close>

subsection \<open>Models\<close>

text \<open>
  The attributes of the Quote, QuoteItem, Invoice and InvoiceItem models. The field
  names carry the model's name in front, since \<open>userId\<close> and \<open>status\<close> are fields of a
  booking already.
\<close>

record quote_item =
  item_quoteId :: nat
  item_itemName :: jsval
  item_description :: jsval
  item_quantity :: jsval
  item_unitPrice :: jsval

record quote =
  quote_quoteRequestId :: jsval
  quote_serviceProviderId :: jsval
  quote_userId :: jsval
  quote_customerName :: jsval
  quote_customerEmail :: jsval
  quote_serviceDate :: jsval
  quote_totalAmount :: jsval
  quote_note :: jsval
  quote_status :: jsval
  quote_validUntil :: jsval

record invoice =
  invoice_quoteId :: nat
  invoice_serviceProviderId :: jsval
  invoice_userId :: jsval
  invoice_customerName :: jsval
  invoice_customerEmail :: jsval
  invoice_serviceDate :: jsval
  invoice_totalAmount :: jsval
  invoice_status :: jsval
  invoice_dueDate :: jsval
  invoice_paymentLink :: string

record invoice_item =
  iitem_invoiceId :: nat
  iitem_itemName :: jsval
  iitem_description :: jsval
  iitem_quantity :: jsval
  iitem_unitPrice :: jsval

text \<open>
  The tables of the service. Quotes and invoices are keyed by their primary key; the
  item tables are kept in insertion order.
\<close>

record sp_db =
  quotes :: "nat \<rightharpoonup> quote"
  quoteItems :: "quote_item list"
  invoices :: "nat \<rightharpoonup> invoice"
  invoiceItems :: "invoice_item list"

definition setQuoteStatus :: "nat \<Rightarrow> quote \<Rightarrow> string \<Rightarrow> sp_db \<Rightarrow> sp_db" where
  "setQuoteStatus k q st d = d\<lparr>quotes := (quotes d)(k \<mapsto> q\<lparr>quote_status := JStr st\<rparr>)\<rparr>"

subsection \<open>POST /:id/accept and POST /:id/reject\<close>

text \<open>
  The handler bodies, for the principal that the route's middleware let through.
  Success answers the quote as read back from the table.
\<close>

definition acceptQuote :: "env \<Rightarrow> principal \<Rightarrow> nat \<Rightarrow> sp_db \<Rightarrow> (failure + quote) \<times> sp_db" where
  "acceptQuote e p k d =
     (case quotes d k of
        None \<Rightarrow> (Inl (Error 404 ''Quote not found''), d)
      | Some q \<Rightarrow>
          if \<not> strict_eq (quote_userId q) (user_id p) then
            (Inl (Error 403 ''You are not authorized to accept this quote''), d)
          else if \<not> strict_eq (quote_status q) (JStr ''sent'')
                  \<and> \<not> strict_eq (quote_status q) (JStr ''viewed'') then
            (Inl (Error 400 (''Cannot accept quote with status: '' @ template e (quote_status q))), d)
          else if date_lt (newDate e (quote_validUntil q)) (Some (now e)) then
            (Inl (Error 400 ''This quote has expired''), setQuoteStatus k q ''expired'' d)
          else
            (Inr (q\<lparr>quote_status := JStr ''accepted''\<rparr>), setQuoteStatus k q ''accepted'' d))"

definition rejectQuote :: "env \<Rightarrow> principal \<Rightarrow> nat \<Rightarrow> sp_db \<Rightarrow> (failure + quote) \<times> sp_db" where
  "rejectQuote e p k d =
     (case quotes d k of
        None \<Rightarrow> (Inl (Error 404 ''Quote not found''), d)
      | Some q \<Rightarrow>
          if \<not> strict_eq (quote_userId q) (user_id p) then
            (Inl (Error 403 ''You are not authorized to reject this quote''), d)
          else if \<not> strict_eq (quote_status q) (JStr ''sent'')
                  \<and> \<not> strict_eq (quote_status q) (JStr ''viewed'') then
            (Inl (Error 400 (''Cannot reject quote with status: '' @ template e (quote_status q))), d)
          else
            (Inr (q\<lparr>quote_status := JStr ''rejected''\<rparr>), setQuoteStatus k q ''rejected'' d))"

subsection \<open>POST /:id/invoice\<close>

text \<open>
  The handler finds the quote, checks that it is the provider's and that its status is
  \<open>accepted\<close>, and then evaluates \<open>sequelize.transaction(async (t) => ...)\<close>. The route
  module binds no \<open>sequelize\<close>: its \<open>require('../models')\<close> takes the six models
  only, and the name is declared nowhere else in the module (the chat routes do take
  \<open>sequelize\<close> from the same \<open>require\<close>). Reading the unbound identifier throws a
  \<open>ReferenceError\<close> before \<open>transaction\<close> is called, so the callback with its three
  writes (the invoice, its items, the quote's status) is never entered, and the
  handler's \<open>catch\<close> answers 500. The success answer, 201 with the invoice and its
  items, is the \<open>Inr\<close> of the result type; no path of the handler produces it.
\<close>

definition createInvoiceFromQuote ::
  "env \<Rightarrow> principal \<Rightarrow> nat \<Rightarrow> sp_db \<Rightarrow> (failure + nat \<times> invoice \<times> invoice_item list) \<times> sp_db" where
  "createInvoiceFromQuote e p k d =
     (case quotes d k of
        None \<Rightarrow> (Inl (Error 404 ''Quote not found''), d)
      | Some q \<Rightarrow>
          if \<not> strict_eq (quote_serviceProviderId q) (user_id p) then
            (Inl (Error 403 ''You are not authorized to create an invoice for this quote''), d)
          else if \<not> strict_eq (quote_status q) (JStr ''accepted'') then
            (Inl (Error 400 (''Cannot create invoice for quote with status: ''
                             @ template e (quote_status q))), d)
          else
            (Inl (Error 500 ''Error creating invoice''), d))"

section \<open>A sample runtime and sample data\<close>

text \<open>
  Concrete collaborators for the examples below. The conversions and the arithmetic
  agree with JavaScript on the arguments the examples use: whole numbers small enough
  for their products and sums to be exact doubles, strings of decimal digits, \<open>+\<close>
  between such a number and a string, and the ISO dates of the table \<open>sampleDates\<close>
  (in milliseconds; a date without a time is midnight UTC). Every venue of
  the sample venue service belongs to vendor 3, and the clock reads
  2029-12-26T09:00:00Z unless an example sets it.
\<close>

function show_nat :: "nat \<Rightarrow> string" where
  "show_nat n =
     (if n < 10 then [''0123456789'' ! n]
      else show_nat (n div 10) @ [''0123456789'' ! (n mod 10)])"
  by pat_completeness auto
termination
  by (relation "measure id") auto

declare show_nat.simps [simp del]

definition show_int :: "int \<Rightarrow> string" where
  "show_int i = (if i < 0 then CHR ''-'' # show_nat (nat (- i)) else show_nat (nat i))"

definition digitsValue :: "string \<Rightarrow> nat option" where
  "digitsValue s =
     (if s \<noteq> [] \<and> list_all (\<lambda>c. c \<in> set ''0123456789'') s
      then Some (foldl (\<lambda>n c. 10 * n + (of_char c - 48)) 0 s) else None)"

fun samplePlus :: "jsval \<Rightarrow> jsval \<Rightarrow> jsval" where
  "samplePlus (JNum (Num x)) (JStr s) = JStr (show_int \<lfloor>x\<rfloor> @ s)"
| "samplePlus (JStr s) (JNum (Num x)) = JStr (s @ show_int \<lfloor>x\<rfloor>)"
| "samplePlus (JStr s) (JStr t) = JStr (s @ t)"
| "samplePlus a c = JNum NaN"

fun sampleMul :: "jsnum \<Rightarrow> jsnum \<Rightarrow> jsnum" where
  "sampleMul (Num x) (Num y) = Num (x * y)"
| "sampleMul a c = NaN"

fun sampleAdd :: "jsnum \<Rightarrow> jsnum \<Rightarrow> jsnum" where
  "sampleAdd (Num x) (Num y) = Num (x + y)"
| "sampleAdd a c = NaN"

definition sampleDates :: "(string \<times> int) list" where
  "sampleDates =
     [(''2030-01-01'', 1893456000000), (''2030-01-03'', 1893628800000),
      (''2030-01-04'', 1893715200000), (''2030-01-10'', 1894233600000),
      (''2029-12-26T09:00:00.000Z'', 1892970000000)]"

definition sample_env :: env where
  "sample_env =
     \<lparr> parseInt = (\<lambda>v. case v of
                     JNum (Num x) \<Rightarrow> Num (of_int (if 0 \<le> x then \<lfloor>x\<rfloor> else \<lceil>x\<rceil>))
                   | JStr s \<Rightarrow> (case digitsValue s of Some n \<Rightarrow> Num (of_nat n) | None \<Rightarrow> NaN)
                   | _ \<Rightarrow> NaN),
       parseFloat = (\<lambda>v. case v of
                     JNum n \<Rightarrow> n
                   | JStr s \<Rightarrow> (case digitsValue s of Some n \<Rightarrow> Num (of_nat n) | None \<Rightarrow> NaN)
                   | _ \<Rightarrow> NaN),
       parseDate = (\<lambda>v. case v of
                     JNum (Num x) \<Rightarrow> Some \<lfloor>x\<rfloor>
                   | JStr s \<Rightarrow> map_of sampleDates s
                   | _ \<Rightarrow> None),
       toStringOf = (\<lambda>v. case v of
                     JNum (Num x) \<Rightarrow> Some (show_int \<lfloor>x\<rfloor>)
                   | JBool c \<Rightarrow> Some (if c then ''true'' else ''false'')
                   | _ \<Rightarrow> Some ''[object Object]''),
       numMul = sampleMul,
       numAdd = sampleAdd,
       plusCoerce = samplePlus,
       now = 1892970000000,
       getVenue = (\<lambda>v. Some (JObj [(''id'', v), (''vendorId'', JNum (Num 3))])),
       isInteger = (\<lambda>v. case v of
                     JNum (Num x) \<Rightarrow> x = of_int \<lfloor>x\<rfloor>
                   | JStr s \<Rightarrow> digitsValue s \<noteq> None
                   | _ \<Rightarrow> False),
       isFloat = (\<lambda>v. case v of
                     JNum (Num x) \<Rightarrow> True
                   | JStr s \<Rightarrow> digitsValue s \<noteq> None
                   | _ \<Rightarrow> False),
       isDateOnly = (\<lambda>v. case v of
                     JNum (Num x) \<Rightarrow> True
                   | JStr s \<Rightarrow> map_of sampleDates s \<noteq> None
                   | _ \<Rightarrow> False) \<rparr>"

text \<open>Principals: user 7 on the gateway path, vendor 3, an admin, another user.\<close>

definition user7 :: principal where
  "user7 = \<lparr> user_id = JStr ''7'', user_role = ''user'' \<rparr>"

definition vendor3 :: principal where
  "vendor3 = \<lparr> user_id = JStr ''3'', user_role = ''vendor'' \<rparr>"

definition admin1 :: principal where
  "admin1 = \<lparr> user_id = JStr ''1'', user_role = ''admin'' \<rparr>"

definition admin2 :: principal where
  "admin2 = \<lparr> user_id = JStr ''2'', user_role = ''admin'' \<rparr>"

text \<open>
  The per-head request of the specification's example: 80 guests at 50 a head, a
  minimum of 50 guests, and two services of 500 and 300.
\<close>

definition per_head_body :: body where
  "per_head_body =
     [''venueId'' \<mapsto> JNum (Num 2), ''vendorId'' \<mapsto> JNum (Num 3),
      ''date'' \<mapsto> JStr ''2030-01-10'', ''guestCount'' \<mapsto> JNum (Num 80),
      ''pricingType'' \<mapsto> JStr ''per_head'', ''perHeadPrice'' \<mapsto> JNum (Num 50),
      ''minGuests'' \<mapsto> JNum (Num 50),
      ''additionalServices'' \<mapsto>
         JArr [JObj [(''name'', JStr ''Decoration''), (''price'', JNum (Num 500))],
               JObj [(''name'', JStr ''DJ''), (''price'', JNum (Num 300))]]]"


definition empty_db :: db where
  "empty_db = \<lparr> bookings = Map.empty, nextId = 1 \<rparr>"

text \<open>The row that the per-head request creates.\<close>

definition per_head_row :: booking where
  "per_head_row =
     \<lparr> userId = JStr ''7'', venueId = JNum (Num 2), vendorId = JNum (Num 3),
       date = JStr ''2030-01-10'', guestCount = JNum (Num 80),
       pricingType = JStr ''per_head'', flatPrice = JUndefined,
       perHeadPrice = JNum (Num 50), minGuests = JNum (Num 50),
       additionalServices =
         JArr [JObj [(''name'', JStr ''Decoration''), (''price'', JNum (Num 500))],
               JObj [(''name'', JStr ''DJ''), (''price'', JNum (Num 300))]],
       totalPrice = JNum (Num 4800), status = JStr ''pending'' \<rparr>"

text \<open>
  Booking 12 of user 7 at a venue of vendor 3, as the table returns it, in a given
  status and on a given date; the table that holds only this booking; a clock at
  2030-01-01T12:00:00Z; and the bodies of a status update and of a deletion.
\<close>

definition booking12 :: "string \<Rightarrow> string \<Rightarrow> booking" where
  "booking12 st dt = per_head_row\<lparr>userId := JNum (Num 7), date := JStr dt, status := JStr st\<rparr>"

definition db12 :: "string \<Rightarrow> string \<Rightarrow> db" where
  "db12 st dt = \<lparr> bookings = [12 \<mapsto> booking12 st dt], nextId = 13 \<rparr>"

definition noon_env :: env where
  "noon_env = sample_env\<lparr>now := 1893499200000\<rparr>"

definition wants :: "string \<Rightarrow> body" where
  "wants st = [''status'' \<mapsto> JStr st]"

definition reason :: "string \<Rightarrow> body" where
  "reason r = [''reason'' \<mapsto> JStr r]"

text \<open>
  The service-provider service: user 7 and provider 9 on the token path (numeric ids),
  quote 5 from provider 9 to user 7 with two items, valid until 2029-12-20T09:00:00Z,
  and the tables that hold it.
\<close>

definition user7n :: principal where
  "user7n = \<lparr> user_id = JNum (Num 7), user_role = ''user'' \<rparr>"


definition quote5 :: "string \<Rightarrow> quote" where
  "quote5 st =
     \<lparr> quote_quoteRequestId = JNull, quote_serviceProviderId = JNum (Num 9),
       quote_userId = JNum (Num 7), quote_customerName = JStr ''Ada'',
       quote_customerEmail = JStr ''ada@example.org'',
       quote_serviceDate = JDate (Some 1894233600000),
       quote_totalAmount = JStr ''800.00'', quote_note = JNull,
       quote_status = JStr st, quote_validUntil = JDate (Some 1892451600000) \<rparr>"

definition quoteItems5 :: "quote_item list" where
  "quoteItems5 =
     [\<lparr> item_quoteId = 5, item_itemName = JStr ''Decoration'', item_description = JNull,
        item_quantity = JNum (Num 1), item_unitPrice = JStr ''500.00'' \<rparr>,
      \<lparr> item_quoteId = 5, item_itemName = JStr ''DJ'', item_description = JNull,
        item_quantity = JNum (Num 1), item_unitPrice = JStr ''300.00'' \<rparr>]"

definition quotes_db :: "string \<Rightarrow> sp_db" where
  "quotes_db st =
     \<lparr> quotes = [5 \<mapsto> quote5 st], quoteItems = quoteItems5, invoices = Map.empty,
       invoiceItems = [] \<rparr>"

section \<open>Notions of the specification\<close>




text \<open>An id on which \<open>toString()\<close> does not throw.\<close>

definition printable :: "env \<Rightarrow> jsval \<Rightarrow> bool" where
  "printable e v = (js_toString e v \<noteq> None)"

section \<open>Properties of booking creation\<close>

subsection \<open>The per-head total\<close>





subsection \<open>The sample request\<close>

lemma sample_admitted_on:
  assumes "map_of sampleDates s = Some t" and "now sample_env \<le> t"
  shows "admitted sample_env user7 (per_head_body(''date'' \<mapsto> JStr s)) = Inr (JStr ''7'', Num 80)"
proof -
  from assms have ne: "s \<noteq> []" by (auto simp: sampleDates_def)
  have venue: "verifyVenue sample_env (per_head_body(''date'' \<mapsto> JStr s)) = Inr ()"
    by (simp add: verifyVenue_def field_def per_head_body_def sample_env_def js_toString_def
        show_int_def show_nat.simps)
  have guests: "validGuestCount sample_env (per_head_body(''date'' \<mapsto> JStr s)) = Inr (Num 80)"
    by (simp add: validGuestCount_def rawGuestCount_def field_def per_head_body_def sample_env_def)
  have dt: "validDate sample_env (per_head_body(''date'' \<mapsto> JStr s)) = Inr ()"
    using assms ne by (simp add: validDate_def field_def newDate_def date_lt_def sample_env_def)
  have who: "requestedUserId sample_env user7 (per_head_body(''date'' \<mapsto> JStr s)) = Inr (JStr ''7'')"
    by (simp add: requestedUserId_def field_def per_head_body_def user7_def)
  have req: "requiredFields (JStr ''7'') (per_head_body(''date'' \<mapsto> JStr s)) = Inr ()"
    by (simp add: requiredFields_def field_def per_head_body_def)
  show ?thesis
    by (simp add: admitted_def andThen_def who req venue guests dt)
qed

lemma sample_values_on:
  assumes "map_of sampleDates s = Some t" and "now sample_env \<le> t"
  shows "bookingValues sample_env user7 (per_head_body(''date'' \<mapsto> JStr s))
         = Inr (per_head_row\<lparr>date := JStr s\<rparr>)"
proof -
  have base: "basePrice sample_env (per_head_body(''date'' \<mapsto> JStr s)) (Num 80)
      = Inr (JUndefined, JNum (Num 50), JNum (Num 50), JNum (Num 4000))"
    by (simp add: basePrice_def pricingTypeOf_def minGuestsOf_def field_def per_head_body_def
        sample_env_def Let_def)
  have svc: "addServices sample_env (field (per_head_body(''date'' \<mapsto> JStr s)) ''additionalServices'')
        (JNum (Num 4000)) = Inr (JNum (Num 4800))"
    by (simp add: addServices_def field_def per_head_body_def js_add_def js_or_def
        sample_env_def)
  show ?thesis
    by (simp add: bookingValues_def andThen_def sample_admitted_on[OF assms] base svc
        per_head_row_def pricingTypeOf_def js_or_def)
       (simp add: field_def per_head_body_def)
qed

lemma digits7: "digitsValue ''7'' = Some 7"
  by (simp add: digitsValue_def)

lemma sample_created_on:
  assumes "map_of sampleDates s = Some t" and "now sample_env \<le> t"
  shows "createBooking sample_env user7 (per_head_body(''date'' \<mapsto> JStr s)) empty_db
   = (Inr (1, per_head_row\<lparr>date := JStr s\<rparr>),
      \<lparr> bookings = [1 \<mapsto> per_head_row\<lparr>date := JStr s\<rparr>], nextId = 2 \<rparr>)"
proof -
  have "Booking_valid sample_env (per_head_row\<lparr>date := JStr s\<rparr>)"
    using assms(1)
    by (simp add: Booking_valid_def per_head_row_def sample_env_def notNull_def nullable_def
      digits7 bookingStatuses_def)
  then show ?thesis
    by (simp add: createBooking_def sample_values_on[OF assms] Booking_create_def empty_db_def Let_def)
       (simp add: per_head_row_def)
qed

lemma per_head_body_date: "per_head_body(''date'' \<mapsto> JStr ''2030-01-10'') = per_head_body"
  by (rule ext) (simp add: per_head_body_def)



lemma sample_created:
  "createBooking sample_env user7 per_head_body empty_db
   = (Inr (1, per_head_row), \<lparr> bookings = [1 \<mapsto> per_head_row], nextId = 2 \<rparr>)"
proof -
  have a: "map_of sampleDates ''2030-01-10'' = Some 1894233600000"
    by (simp add: sampleDates_def)
  have b: "now sample_env \<le> 1894233600000"
    by (simp add: sample_env_def)
  have c: "per_head_row\<lparr>date := JStr ''2030-01-10''\<rparr> = per_head_row"
    by (simp add: per_head_row_def)
  show ?thesis
    using sample_created_on[OF a b] by (simp only: per_head_body_date c)
qed


subsection \<open>Claims about the total price\<close>




lemma field_agree:
  "\<forall>k. k \<noteq> ''totalPrice'' \<longrightarrow> b1 k = b2 k \<Longrightarrow> k \<noteq> ''totalPrice'' \<Longrightarrow> field b1 k = field b2 k"
  by (simp add: field_def)

text \<open>
  C7. Two creation requests that differ at most in the body's \<open>totalPrice\<close> give the
  same answer and leave the same table: the handler never reads that field, and the
  stored total is the computed one.
\<close>

theorem client_totalPrice_ignored:
  assumes same: "\<forall>k. k \<noteq> ''totalPrice'' \<longrightarrow> b1 k = b2 k"
  shows "createBooking e p b1 d = createBooking e p b2 d"
proof -
  note f = field_agree[OF same]
  have keys:
    "field b1 ''userId'' = field b2 ''userId''"
    "field b1 ''venueId'' = field b2 ''venueId''"
    "field b1 ''vendorId'' = field b2 ''vendorId''"
    "field b1 ''date'' = field b2 ''date''"
    "field b1 ''guestCount'' = field b2 ''guestCount''"
    "field b1 ''guests'' = field b2 ''guests''"
    "field b1 ''pricingType'' = field b2 ''pricingType''"
    "field b1 ''flatPrice'' = field b2 ''flatPrice''"
    "field b1 ''perHeadPrice'' = field b2 ''perHeadPrice''"
    "field b1 ''minGuests'' = field b2 ''minGuests''"
    "field b1 ''additionalServices'' = field b2 ''additionalServices''"
    "field b1 ''status'' = field b2 ''status''"
    by (simp_all add: f)
  have "bookingValues e p b1 = bookingValues e p b2"
    unfolding bookingValues_def admitted_def requestedUserId_def requiredFields_def
      verifyVenue_def validGuestCount_def rawGuestCount_def validDate_def basePrice_def
      pricingTypeOf_def minGuestsOf_def keys ..
  then show ?thesis by (simp add: createBooking_def)
qed

theorem client_totalPrice_ignored_witness:
  "createBooking sample_env user7 (per_head_body(''totalPrice'' \<mapsto> JNum (Num 1))) empty_db
   = createBooking sample_env user7 per_head_body empty_db"
  using client_totalPrice_ignored
    [of "per_head_body(''totalPrice'' \<mapsto> JNum (Num 1))" per_head_body sample_env user7 empty_db]
  by simp

subsection \<open>The date check\<close>

lemma validDate_rejects_iff:
  "validDate e b = Inl (Error 400 ''Booking date must be in the future'')
   \<longleftrightarrow> truthy (field b ''date'') \<and> date_lt (newDate e (field b ''date'')) (Some (now e))"
  by (simp add: validDate_def)

text \<open>
  C8, at the boundary. The clock reads 2029-12-26T09:00:00.000Z and the request asks
  for exactly that instant: the handler's test is \<open>bookingDate < currentDate\<close>, so the
  request is not refused and the booking is stored.
\<close>

theorem date_equal_to_now_accepted:
  "newDate sample_env (JStr ''2029-12-26T09:00:00.000Z'') = Some (now sample_env)
   \<and> createBooking sample_env user7
        (per_head_body(''date'' \<mapsto> JStr ''2029-12-26T09:00:00.000Z'')) empty_db
     = (Inr (1, per_head_row\<lparr>date := JStr ''2029-12-26T09:00:00.000Z''\<rparr>),
        \<lparr> bookings = [1 \<mapsto> per_head_row\<lparr>date := JStr ''2029-12-26T09:00:00.000Z''\<rparr>],
          nextId = 2 \<rparr>)"
proof -
  have a: "map_of sampleDates ''2029-12-26T09:00:00.000Z'' = Some 1892970000000"
    by (simp add: sampleDates_def)
  have b: "now sample_env \<le> 1892970000000"
    by (simp add: sample_env_def)
  have c: "newDate sample_env (JStr ''2029-12-26T09:00:00.000Z'') = Some (now sample_env)"
    by (simp add: newDate_def sample_env_def a)
  show ?thesis
    using sample_created_on[OF a b] c by simp
qed

theorem date_equal_to_now_accepted_witness:
  "fst (createBooking sample_env user7
         (per_head_body(''date'' \<mapsto> JStr ''2029-12-26T09:00:00.000Z'')) empty_db)
   \<noteq> Inl (Error 400 ''Booking date must be in the future'')"
  using date_equal_to_now_accepted by simp

subsection \<open>The initial status\<close>

lemma Booking_valid_status:
  "Booking_valid e v \<Longrightarrow> s \<in> set bookingStatuses \<Longrightarrow> Booking_valid e (v\<lparr>status := s\<rparr>)"
  by (simp add: Booking_valid_def nullable_def)

lemma bookingValues_status:
  assumes "bookingValues e p b = Inr v" and "s \<in> set bookingStatuses"
  shows "bookingValues e p (b(''status'' \<mapsto> s)) = Inr (v\<lparr>status := s\<rparr>)"
proof -
  have keys:
    "field (b(''status'' \<mapsto> s)) ''userId'' = field b ''userId''"
    "field (b(''status'' \<mapsto> s)) ''venueId'' = field b ''venueId''"
    "field (b(''status'' \<mapsto> s)) ''vendorId'' = field b ''vendorId''"
    "field (b(''status'' \<mapsto> s)) ''date'' = field b ''date''"
    "field (b(''status'' \<mapsto> s)) ''guestCount'' = field b ''guestCount''"
    "field (b(''status'' \<mapsto> s)) ''guests'' = field b ''guests''"
    "field (b(''status'' \<mapsto> s)) ''pricingType'' = field b ''pricingType''"
    "field (b(''status'' \<mapsto> s)) ''flatPrice'' = field b ''flatPrice''"
    "field (b(''status'' \<mapsto> s)) ''perHeadPrice'' = field b ''perHeadPrice''"
    "field (b(''status'' \<mapsto> s)) ''minGuests'' = field b ''minGuests''"
    "field (b(''status'' \<mapsto> s)) ''additionalServices'' = field b ''additionalServices''"
    by (simp_all add: field_def)
  have st: "js_or (field (b(''status'' \<mapsto> s)) ''status'') (JStr ''pending'') = s"
    using assms(2) by (auto simp: js_or_def field_def bookingStatuses_def)
  have adm: "admitted e p (b(''status'' \<mapsto> s)) = admitted e p b"
    unfolding admitted_def requestedUserId_def requiredFields_def
      verifyVenue_def validGuestCount_def rawGuestCount_def validDate_def keys ..
  have base: "basePrice e (b(''status'' \<mapsto> s)) = basePrice e b"
    unfolding basePrice_def pricingTypeOf_def minGuestsOf_def keys ..
  show ?thesis
    using assms(1)
    unfolding bookingValues_def adm base keys st pricingTypeOf_def
    by (auto simp: andThen_def split: sum.splits prod.splits)
qed

text \<open>
  C10. A created booking has the status of the request body when that is supplied
  (truthy), and \<open>pending\<close> otherwise; the row is stored under the answered key. No
  check stands between the body and the row: whoever the principal is, if a request is
  accepted then the same request with any of the three statuses is accepted too and
  creates the booking in that status.
\<close>

theorem initial_status_from_body:
  assumes "createBooking e p b d = (Inr (k, row), d')"
  shows "status row = (if truthy (field b ''status'') then field b ''status'' else JStr ''pending'')
       \<and> findByPk d' k = Some row
       \<and> (\<forall>s\<in>set bookingStatuses.
            createBooking e p (b(''status'' \<mapsto> s)) d
            = (Inr (k, row\<lparr>status := s\<rparr>),
               d\<lparr>bookings := (bookings d)(k \<mapsto> row\<lparr>status := s\<rparr>), nextId := Suc k\<rparr>))"
proof -
  from assms obtain v where v: "bookingValues e p b = Inr v"
    by (auto simp: createBooking_def split: sum.splits)
  have stv: "status v = js_or (field b ''status'') (JStr ''pending'')"
    using v by (auto simp: bookingValues_def andThen_def split: sum.splits prod.splits)
  then have nu: "status v \<noteq> JUndefined"
    by (auto simp: js_or_def)
  from assms v nu have valid: "Booking_valid e v" and row: "row = v" and k: "k = nextId d"
    and d': "d' = d\<lparr>bookings := (bookings d)(k \<mapsto> v), nextId := Suc k\<rparr>"
    by (auto simp: createBooking_def Booking_create_def Let_def split: if_splits)
  have 1: "status row = (if truthy (field b ''status'') then field b ''status'' else JStr ''pending'')"
    using stv row by (simp add: js_or_def)
  have 2: "findByPk d' k = Some row"
    using d' row by (simp add: findByPk_def)
  have 3: "createBooking e p (b(''status'' \<mapsto> s)) d
            = (Inr (k, row\<lparr>status := s\<rparr>),
               d\<lparr>bookings := (bookings d)(k \<mapsto> row\<lparr>status := s\<rparr>), nextId := Suc k\<rparr>)"
    if s: "s \<in> set bookingStatuses" for s
  proof -
    have "s \<noteq> JUndefined" using s by (auto simp: bookingStatuses_def)
    then show ?thesis
      using bookingValues_status[OF v s] Booking_valid_status[OF valid s] row k
      by (simp add: createBooking_def Booking_create_def Let_def)
  qed
  from 1 2 3 show ?thesis by blast
qed

theorem initial_status_from_body_witness:
  "createBooking sample_env user7 (per_head_body(''status'' \<mapsto> JStr ''confirmed'')) empty_db
     = (Inr (1, per_head_row\<lparr>status := JStr ''confirmed''\<rparr>),
        \<lparr> bookings = [1 \<mapsto> per_head_row\<lparr>status := JStr ''confirmed''\<rparr>], nextId = 2 \<rparr>)
   \<and> createBooking sample_env user7 (per_head_body(''status'' \<mapsto> JStr ''cancelled'')) empty_db
     = (Inr (1, per_head_row\<lparr>status := JStr ''cancelled''\<rparr>),
        \<lparr> bookings = [1 \<mapsto> per_head_row\<lparr>status := JStr ''cancelled''\<rparr>], nextId = 2 \<rparr>)
   \<and> status per_head_row = JStr ''pending''"
proof -
  note t = initial_status_from_body [OF sample_created]
  from t have every: "\<forall>s\<in>set bookingStatuses.
      createBooking sample_env user7 (per_head_body(''status'' \<mapsto> s)) empty_db
      = (Inr (1, per_head_row\<lparr>status := s\<rparr>),
         empty_db\<lparr>bookings := (bookings empty_db)(1 \<mapsto> per_head_row\<lparr>status := s\<rparr>),
                  nextId := Suc 1\<rparr>)"
    by blast
  have c: "JStr ''confirmed'' \<in> set bookingStatuses" "JStr ''cancelled'' \<in> set bookingStatuses"
    by (simp_all add: bookingStatuses_def)
  have e: "empty_db\<lparr>bookings := (bookings empty_db)(1 \<mapsto> r), nextId := Suc 1\<rparr>
           = \<lparr> bookings = [1 \<mapsto> r], nextId = 2 \<rparr>" for r
    by (simp add: empty_db_def)
  have p: "status per_head_row = JStr ''pending''"
    by (simp add: per_head_row_def)
  show ?thesis
    using bspec[OF every c(1)] bspec[OF every c(2)] p by (simp only: e simp_thms)
qed

section \<open>Properties of the status update\<close>

subsection \<open>The handler, case by case\<close>

lemma statusWrite:
  assumes "findByPk d k = Some bk" and "mayAccess e p bk = Some True"
      and "statusDecision e p bk (field b ''status'') = Inr True"
  shows "updateBookingStatus e p b k d
         = (Inr (bk\<lparr>status := field b ''status''\<rparr>),
            d\<lparr>bookings := (bookings d)(k \<mapsto> bk\<lparr>status := field b ''status''\<rparr>)\<rparr>)"
  using assms
  by (simp add: updateBookingStatus_def requireBookingOwnership_def Booking_update_def
      setAttribute_def Let_def)

lemma statusRefused:
  assumes "findByPk d k = Some bk" and "mayAccess e p bk = Some True"
      and "statusDecision e p bk (field b ''status'') = Inl r"
  shows "updateBookingStatus e p b k d = (Inl r, d)"
  using assms
  by (simp add: updateBookingStatus_def requireBookingOwnership_def)

lemma statusKept:
  assumes "findByPk d k = Some bk" and "mayAccess e p bk = Some True"
      and "statusDecision e p bk (field b ''status'') = Inr False"
  shows "updateBookingStatus e p b k d = (Inr bk, d)"
  using assms
  by (simp add: updateBookingStatus_def requireBookingOwnership_def)

lemma accessDenied:
  assumes "findByPk d k = Some bk" and "mayAccess e p bk = Some False"
  shows "updateBookingStatus e p b k d
         = (Inl (Error 403 ''You do not have permission to access this booking''), d)"
  using assms
  by (simp add: updateBookingStatus_def requireBookingOwnership_def)

lemma show_digits: "show_int 7 = ''7''" "show_int 3 = ''3''"
  by (simp_all add: show_int_def show_nat.simps)

lemma sample_access_user7:
  "mayAccess (sample_env\<lparr>now := t\<rparr>) user7 (booking12 st dt) = Some True"
  by (simp add: mayAccess_def user7_def booking12_def per_head_row_def sameId_def
      js_toString_def sample_env_def show_digits)

lemma sample_access_vendor3:
  "mayAccess (sample_env\<lparr>now := t\<rparr>) vendor3 (booking12 st dt) = Some True"
  by (simp add: mayAccess_def vendor3_def booking12_def per_head_row_def sameId_def
      js_toString_def sample_env_def show_digits)

lemma sample_env_now: "sample_env\<lparr>now := now sample_env\<rparr> = sample_env"
  by simp

lemma found12: "findByPk (db12 st dt) 12 = Some (booking12 st dt)"
  by (simp add: findByPk_def db12_def)

lemma booking12_status: "(booking12 st dt)\<lparr>status := JStr st'\<rparr> = booking12 st' dt"
  "status (booking12 st dt) = JStr st" "date (booking12 st dt) = JStr dt"
  by (simp_all add: booking12_def)

lemma db12_update: "(db12 st dt)\<lparr>bookings := (bookings (db12 st dt))(12 \<mapsto> booking12 st' dt)\<rparr> = db12 st' dt"
  by (simp add: db12_def)

lemma sample_printable:
  "printable sample_env (user_id user7)" "printable sample_env (user_id vendor3)"
  "printable sample_env (userId (booking12 st dt))"
  "printable sample_env (vendorId (booking12 st dt))"
  by (simp_all add: printable_def js_toString_def user7_def vendor3_def booking12_def
      per_head_row_def sample_env_def)

subsection \<open>Leaving the status cancelled\<close>




subsection \<open>Confirming\<close>

text \<open>
  C5, as the code has it. For a booking that is not already confirmed, and ids on
  which \<open>toString()\<close> does not throw, a request for \<open>confirmed\<close> is carried out for an
  admin and for a vendor whose id is the booking's (non-zero) \<open>vendorId\<close>, and every
  principal who is neither an admin nor that vendor is answered 403, the table
  untouched.
\<close>

theorem confirm_needs_admin_or_vendor:
  assumes found: "findByPk d k = Some bk"
      and asks: "field b ''status'' = JStr ''confirmed''"
      and changing: "status bk \<noteq> JStr ''confirmed''"
      and ids: "printable e (user_id p)" "printable e (userId bk)" "printable e (vendorId bk)"
  shows "(user_role p = ''admin''
          \<or> user_role p = ''vendor'' \<and> truthy (vendorId bk)
             \<and> sameId e (vendorId bk) (user_id p) = Some True \<longrightarrow>
            updateBookingStatus e p b k d
            = (Inr (bk\<lparr>status := JStr ''confirmed''\<rparr>),
               d\<lparr>bookings := (bookings d)(k \<mapsto> bk\<lparr>status := JStr ''confirmed''\<rparr>)\<rparr>))
       \<and> (\<not> (user_role p = ''admin''
              \<or> user_role p = ''vendor'' \<and> sameId e (vendorId bk) (user_id p) = Some True) \<longrightarrow>
            (\<exists>m. updateBookingStatus e p b k d = (Inl (Error 403 m), d)))"
proof (intro conjI impI)
  assume who: "user_role p = ''admin''
          \<or> user_role p = ''vendor'' \<and> truthy (vendorId bk)
             \<and> sameId e (vendorId bk) (user_id p) = Some True"
  have neq: "\<not> strict_eq (status bk) (JStr ''confirmed'')"
    using changing by (cases "status bk") auto
  from who ids have access: "mayAccess e p bk = Some True"
    by (auto simp: mayAccess_def printable_def sameId_def split: option.splits bool.splits)
  from who neq have "statusDecision e p bk (field b ''status'') = Inr True"
    by (auto simp: statusDecision_def asks bookingStatuses_def)
  from statusWrite[OF found access this] show
    "updateBookingStatus e p b k d
            = (Inr (bk\<lparr>status := JStr ''confirmed''\<rparr>),
               d\<lparr>bookings := (bookings d)(k \<mapsto> bk\<lparr>status := JStr ''confirmed''\<rparr>)\<rparr>)"
    by (simp add: asks)
next
  assume other: "\<not> (user_role p = ''admin''
              \<or> user_role p = ''vendor'' \<and> sameId e (vendorId bk) (user_id p) = Some True)"
  have neq: "\<not> strict_eq (status bk) (JStr ''confirmed'')"
    using changing by (cases "status bk") auto
  from ids obtain c where c: "sameId e (vendorId bk) (user_id p) = Some c"
    by (auto simp: printable_def sameId_def)
  from ids have "mayAccess e p bk \<noteq> None"
    by (auto simp: mayAccess_def printable_def sameId_def split: bool.splits)
  then obtain a where a: "mayAccess e p bk = Some a"
    by blast
  show "\<exists>m. updateBookingStatus e p b k d = (Inl (Error 403 m), d)"
  proof (cases a)
    case False
    with a have "mayAccess e p bk = Some False" by simp
    from accessDenied[OF found this] show ?thesis by blast
  next
    case True
    from other c neq have
      "statusDecision e p bk (field b ''status'')
       = Inl (Error 403 ''Only the venue vendor or administrators can confirm bookings'')"
      by (auto simp: statusDecision_def asks bookingStatuses_def)
    moreover from a True have "mayAccess e p bk = Some True" by simp
    ultimately show ?thesis using statusRefused[OF found] by blast
  qed
qed

theorem confirm_needs_admin_or_vendor_witness:
  "updateBookingStatus sample_env vendor3 (wants ''confirmed'') 12 (db12 ''pending'' ''2030-01-04'')
     = (Inr (booking12 ''confirmed'' ''2030-01-04''), db12 ''confirmed'' ''2030-01-04'')
   \<and> (\<exists>m. updateBookingStatus sample_env user7 (wants ''confirmed'') 12 (db12 ''pending'' ''2030-01-04'')
          = (Inl (Error 403 m), db12 ''pending'' ''2030-01-04''))"
proof -
  have w: "field (wants ''confirmed'') ''status'' = JStr ''confirmed''"
    by (simp add: field_def wants_def)
  have ch: "status (booking12 ''pending'' ''2030-01-04'') \<noteq> JStr ''confirmed''"
    by (simp add: booking12_status)
  have own: "user_role vendor3 = ''vendor''" "truthy (vendorId (booking12 ''pending'' ''2030-01-04''))"
     "sameId sample_env (vendorId (booking12 ''pending'' ''2030-01-04'')) (user_id vendor3) = Some True"
    by (simp_all add: vendor3_def booking12_def per_head_row_def sameId_def js_toString_def
        sample_env_def show_digits)
  have usr: "user_role user7 \<noteq> ''admin''" "user_role user7 \<noteq> ''vendor''"
    by (simp_all add: user7_def)
  show ?thesis
    using confirm_needs_admin_or_vendor[OF found12 w ch sample_printable(2,3,4)]
          confirm_needs_admin_or_vendor[OF found12 w ch sample_printable(1,3,4)]
    by (simp add: own usr booking12_status db12_update)
qed

text \<open>
  C5 as stated fails for a booking that is confirmed already: user 7, who is neither
  admin nor vendor, asks for \<open>confirmed\<close> on their confirmed booking 12 and is answered
  the booking, not 403.
\<close>

theorem self_confirm_counterexample:
  "user_role user7 = ''user''
   \<and> updateBookingStatus sample_env user7 (wants ''confirmed'') 12 (db12 ''confirmed'' ''2030-01-04'')
     = (Inr (booking12 ''confirmed'' ''2030-01-04''), db12 ''confirmed'' ''2030-01-04'')"
proof -
  have u: "mayAccess sample_env user7 (booking12 ''confirmed'' ''2030-01-04'') = Some True"
    using sample_access_user7[of "now sample_env"] by (simp only: sample_env_now)
  have d: "statusDecision sample_env user7 (booking12 ''confirmed'' ''2030-01-04'')
             (field (wants ''confirmed'') ''status'') = Inr False"
    by (simp add: statusDecision_def field_def wants_def bookingStatuses_def booking12_status)
  show ?thesis
    using statusKept[OF found12 u d] by (simp add: user7_def)
qed

subsection \<open>Cancelling a confirmed booking\<close>

lemma days_lt3: "\<lceil>real_of_int x / 86400000\<rceil> < 3 \<longleftrightarrow> x \<le> 2 * 86400000"
proof -
  have "\<lceil>real_of_int x / 86400000\<rceil> < 3 \<longleftrightarrow> real_of_int x / 86400000 \<le> 2"
    by (simp add: ceiling_less_iff)
  also have "\<dots> \<longleftrightarrow> real_of_int x \<le> 2 * 86400000"
    by (simp add: field_simps)
  also have "\<dots> \<longleftrightarrow> x \<le> 2 * 86400000"
    by linarith
  finally show ?thesis .
qed

text \<open>
  The rule the handler applies to a principal who passes the ownership check and asks
  for \<open>cancelled\<close>. The notice is counted in days rounded up,
  \<open>Math.ceil((date - now) / day) < 3\<close>, which holds exactly when the date is at most
  two days (172800000 ms) after now. On a confirmed booking a principal of role
  \<open>user\<close> is answered 403 when the date is at most two days away; any other role, and
  a user more than two days ahead, cancel it; a pending booking is cancelled whatever
  the date.
\<close>

lemma cancel_notice_rule:
  assumes found: "findByPk d k = Some bk"
      and access: "mayAccess e p bk = Some True"
      and asks: "field b ''status'' = JStr ''cancelled''"
      and dt: "newDate e (date bk) = Some t"
  shows "(status bk = JStr ''confirmed'' \<and> user_role p = ''user'' \<and> t - now e \<le> 2 * 86400000 \<longrightarrow>
            updateBookingStatus e p b k d
            = (Inl (Error 403 ''Cannot cancel confirmed booking with less than 3 days notice''), d))
       \<and> (status bk = JStr ''confirmed'' \<and> (user_role p \<noteq> ''user'' \<or> 2 * 86400000 < t - now e) \<longrightarrow>
            updateBookingStatus e p b k d
            = (Inr (bk\<lparr>status := JStr ''cancelled''\<rparr>),
               d\<lparr>bookings := (bookings d)(k \<mapsto> bk\<lparr>status := JStr ''cancelled''\<rparr>)\<rparr>))
       \<and> (status bk = JStr ''pending'' \<longrightarrow>
            updateBookingStatus e p b k d
            = (Inr (bk\<lparr>status := JStr ''cancelled''\<rparr>),
               d\<lparr>bookings := (bookings d)(k \<mapsto> bk\<lparr>status := JStr ''cancelled''\<rparr>)\<rparr>))"
proof (intro conjI impI)
  assume h: "status bk = JStr ''confirmed'' \<and> user_role p = ''user'' \<and> t - now e \<le> 2 * 86400000"
  then have "statusDecision e p bk (field b ''status'')
      = Inl (Error 403 ''Cannot cancel confirmed booking with less than 3 days notice'')"
    by (simp add: statusDecision_def asks bookingStatuses_def daysDifference_def dt days_lt3)
  from statusRefused[OF found access this] show
    "updateBookingStatus e p b k d
            = (Inl (Error 403 ''Cannot cancel confirmed booking with less than 3 days notice''), d)" .
next
  assume h: "status bk = JStr ''confirmed'' \<and> (user_role p \<noteq> ''user'' \<or> 2 * 86400000 < t - now e)"
  then have "statusDecision e p bk (field b ''status'') = Inr True"
    by (auto simp add: statusDecision_def asks bookingStatuses_def daysDifference_def dt days_lt3)
  from statusWrite[OF found access this] show
    "updateBookingStatus e p b k d
            = (Inr (bk\<lparr>status := JStr ''cancelled''\<rparr>),
               d\<lparr>bookings := (bookings d)(k \<mapsto> bk\<lparr>status := JStr ''cancelled''\<rparr>)\<rparr>)"
    by (simp add: asks)
next
  assume h: "status bk = JStr ''pending''"
  then have "statusDecision e p bk (field b ''status'') = Inr True"
    by (simp add: statusDecision_def asks bookingStatuses_def)
  from statusWrite[OF found access this] show
    "updateBookingStatus e p b k d
            = (Inr (bk\<lparr>status := JStr ''cancelled''\<rparr>),
               d\<lparr>bookings := (bookings d)(k \<mapsto> bk\<lparr>status := JStr ''cancelled''\<rparr>)\<rparr>)"
    by (simp add: asks)
qed

lemma noon_dates:
  "newDate noon_env (date (booking12 st ''2030-01-04'')) = Some 1893715200000"
  "newDate noon_env (date (booking12 st ''2030-01-03'')) = Some 1893628800000"
  "now noon_env = 1893499200000"
  by (simp_all add: newDate_def noon_env_def sample_env_def sampleDates_def booking12_status)

lemma cancel_notice_rule_example:
  "updateBookingStatus noon_env user7 (wants ''cancelled'') 12 (db12 ''confirmed'' ''2030-01-03'')
     = (Inl (Error 403 ''Cannot cancel confirmed booking with less than 3 days notice''),
        db12 ''confirmed'' ''2030-01-03'')
   \<and> updateBookingStatus noon_env vendor3 (wants ''cancelled'') 12 (db12 ''confirmed'' ''2030-01-03'')
     = (Inr (booking12 ''cancelled'' ''2030-01-03''), db12 ''cancelled'' ''2030-01-03'')
   \<and> updateBookingStatus noon_env user7 (wants ''cancelled'') 12 (db12 ''pending'' ''2030-01-03'')
     = (Inr (booking12 ''cancelled'' ''2030-01-03''), db12 ''cancelled'' ''2030-01-03'')"
proof -
  have w: "field (wants ''cancelled'') ''status'' = JStr ''cancelled''"
    by (simp add: field_def wants_def)
  have u: "mayAccess noon_env user7 (booking12 st ''2030-01-03'') = Some True" for st
    unfolding noon_env_def by (rule sample_access_user7)
  have v: "mayAccess noon_env vendor3 (booking12 st ''2030-01-03'') = Some True" for st
    unfolding noon_env_def by (rule sample_access_vendor3)
  have r: "user_role user7 = ''user''" "user_role vendor3 \<noteq> ''user''"
    by (simp_all add: user7_def vendor3_def)
  show ?thesis
    using cancel_notice_rule[OF found12 u w noon_dates(2), of "''confirmed''"]
          cancel_notice_rule[OF found12 v w noon_dates(2), of "''confirmed''"]
          cancel_notice_rule[OF found12 u w noon_dates(2), of "''pending''"]
    by (simp add: r noon_dates(3) booking12_status db12_update)
qed

text \<open>
  C6, between two and three days. At 2030-01-01T12:00Z user 7, of role \<open>user\<close>, asks
  to cancel their confirmed booking for 2030-01-04, two and a half days (60 hours)
  ahead, which is less than the three days of notice that the handler's comment and
  message require. The rounding up makes the difference 3, the test \<open>< 3\<close> fails, and
  the booking is cancelled.
\<close>

theorem cancel_inside_notice_allowed:
  "status (booking12 ''confirmed'' ''2030-01-04'') = JStr ''confirmed''
   \<and> newDate noon_env (date (booking12 ''confirmed'' ''2030-01-04'')) = Some 1893715200000
   \<and> 1893715200000 - now noon_env < 3 * 86400000
   \<and> user_role user7 = ''user''
   \<and> updateBookingStatus noon_env user7 (wants ''cancelled'') 12 (db12 ''confirmed'' ''2030-01-04'')
     = (Inr (booking12 ''cancelled'' ''2030-01-04''), db12 ''cancelled'' ''2030-01-04'')"
proof -
  have w: "field (wants ''cancelled'') ''status'' = JStr ''cancelled''"
    by (simp add: field_def wants_def)
  have u: "mayAccess noon_env user7 (booking12 ''confirmed'' ''2030-01-04'') = Some True"
    unfolding noon_env_def by (rule sample_access_user7)
  have dec: "statusDecision noon_env user7 (booking12 ''confirmed'' ''2030-01-04'')
      (field (wants ''cancelled'') ''status'') = Inr True"
    by (simp add: statusDecision_def w bookingStatuses_def daysDifference_def noon_dates
        booking12_status(2))
  have c1: "status (booking12 ''confirmed'' ''2030-01-04'') = JStr ''confirmed''"
    by (simp add: booking12_status)
  have c3: "1893715200000 - now noon_env < 3 * 86400000"
    by (simp add: noon_dates)
  have c4: "user_role user7 = ''user''"
    by (simp add: user7_def)
  have c5: "updateBookingStatus noon_env user7 (wants ''cancelled'') 12 (db12 ''confirmed'' ''2030-01-04'')
     = (Inr (booking12 ''cancelled'' ''2030-01-04''), db12 ''cancelled'' ''2030-01-04'')"
    using statusWrite[OF found12 u dec] by (simp add: w booking12_status db12_update)
  from c1 noon_dates(1) c3 c4 c5 show ?thesis by blast
qed

theorem cancel_inside_notice_allowed_witness:
  "daysDifference noon_env (date (booking12 ''confirmed'' ''2030-01-04'')) = Some 3
   \<and> fst (updateBookingStatus noon_env user7 (wants ''cancelled'') 12
             (db12 ''confirmed'' ''2030-01-04''))
     \<noteq> Inl (Error 403 ''Cannot cancel confirmed booking with less than 3 days notice'')"
proof -
  have d: "daysDifference noon_env (date (booking12 ''confirmed'' ''2030-01-04'')) = Some 3"
    by (simp add: daysDifference_def noon_dates)
  from cancel_inside_notice_allowed have
    "fst (updateBookingStatus noon_env user7 (wants ''cancelled'') 12
             (db12 ''confirmed'' ''2030-01-04''))
     \<noteq> Inl (Error 403 ''Cannot cancel confirmed booking with less than 3 days notice'')"
    by simp
  with d show ?thesis by blast
qed

section \<open>Properties of the deletion\<close>

lemma metadata_dropped:
  "setAttributes [(''status'', s), (''deletedBy'', a), (''deletedAt'', t), (''deletionReason'', r)] bk
   = bk\<lparr>status := s\<rparr>"
  by (simp add: setAttribute_def)

lemma deleteBooking_admin:
  assumes "findByPk d k = Some bk" and "user_role p = ''admin''"
  shows "deleteBooking e p b k d
         = (Inr (), d\<lparr>bookings := (bookings d)(k \<mapsto> bk\<lparr>status := JStr ''cancelled''\<rparr>)\<rparr>)"
  using assms
  by (simp add: deleteBooking_def requireBookingOwnership_def mayAccess_def Booking_update_def
      Let_def setAttribute_def)

text \<open>
  C9, at the specification's example. An admin deletes booking 12 with the reason
  \<open>test\<close>. The booking stays in the table, readable, with status \<open>cancelled\<close>; but
  \<open>deletedBy\<close>, \<open>deletedAt\<close> and \<open>deletionReason\<close> are not attributes of the model,
  so the row that is stored is the one that another admin with another reason leaves.
\<close>

theorem delete_stores_no_metadata:
  "deleteBooking sample_env admin1 (reason ''test'') 12 (db12 ''confirmed'' ''2030-01-04'')
     = (Inr (), db12 ''cancelled'' ''2030-01-04'')
   \<and> deleteBooking sample_env admin2 (reason ''other'') 12 (db12 ''confirmed'' ''2030-01-04'')
     = (Inr (), db12 ''cancelled'' ''2030-01-04'')
   \<and> getBooking sample_env admin1 12 (db12 ''cancelled'' ''2030-01-04'')
     = Inr (booking12 ''cancelled'' ''2030-01-04'')"
proof -
  have a: "user_role admin1 = ''admin''" "user_role admin2 = ''admin''"
    by (simp_all add: admin1_def admin2_def)
  have g: "getBooking sample_env admin1 12 (db12 ''cancelled'' ''2030-01-04'')
     = Inr (booking12 ''cancelled'' ''2030-01-04'')"
    by (simp add: getBooking_def found12 admin1_def sameId_def js_toString_def booking12_def
        per_head_row_def sample_env_def)
  show ?thesis
    using deleteBooking_admin[OF found12 a(1)] deleteBooking_admin[OF found12 a(2)] g
    by (simp add: booking12_status db12_update)
qed

theorem delete_stores_no_metadata_witness:
  "snd (deleteBooking sample_env admin1 (reason ''test'') 12 (db12 ''confirmed'' ''2030-01-04''))
   = snd (deleteBooking sample_env admin2 (reason ''other'') 12 (db12 ''confirmed'' ''2030-01-04''))"
  using delete_stores_no_metadata by simp

section \<open>Properties of quotes and invoices\<close>

subsection \<open>Accepting and rejecting an expired quote\<close>

lemma quote5_status: "(quote5 st)\<lparr>quote_status := JStr st'\<rparr> = quote5 st'"
  by (simp add: quote5_def)

lemma quotes_db_status: "setQuoteStatus 5 (quote5 st) st' (quotes_db st) = quotes_db st'"
  by (simp add: setQuoteStatus_def quotes_db_def quote5_status)

lemma accept_expired:
  assumes "quotes d k = Some q" and "strict_eq (quote_userId q) (user_id p)"
      and "quote_status q = JStr ''sent'' \<or> quote_status q = JStr ''viewed''"
      and "newDate e (quote_validUntil q) = Some t" and "t < now e"
  shows "acceptQuote e p k d
         = (Inl (Error 400 ''This quote has expired''), setQuoteStatus k q ''expired'' d)"
  using assms by (auto simp: acceptQuote_def date_lt_def)

lemma reject_open:
  assumes "quotes d k = Some q" and "strict_eq (quote_userId q) (user_id p)"
      and "quote_status q = JStr ''sent'' \<or> quote_status q = JStr ''viewed''"
  shows "rejectQuote e p k d
         = (Inr (q\<lparr>quote_status := JStr ''rejected''\<rparr>), setQuoteStatus k q ''rejected'' d)"
  using assms by (auto simp: rejectQuote_def)

text \<open>
  C3, at a quote that expired six days ago. The addressed user rejects quote 5, in
  status \<open>sent\<close>: the reject handler has no expiry test, answers success and stores
  \<open>rejected\<close>. The accept handler on the same quote answers 400 and stores \<open>expired\<close>.
\<close>

theorem reject_ignores_expiry:
  "newDate sample_env (quote_validUntil (quote5 ''sent'')) = Some 1892451600000
   \<and> 1892451600000 < now sample_env
   \<and> rejectQuote sample_env user7n 5 (quotes_db ''sent'')
     = (Inr (quote5 ''rejected''), quotes_db ''rejected'')
   \<and> acceptQuote sample_env user7n 5 (quotes_db ''sent'')
     = (Inl (Error 400 ''This quote has expired''), quotes_db ''expired'')"
proof -
  have f: "quotes (quotes_db ''sent'') 5 = Some (quote5 ''sent'')"
    by (simp add: quotes_db_def)
  have u: "strict_eq (quote_userId (quote5 ''sent'')) (user_id user7n)"
    by (simp add: quote5_def user7n_def)
  have s: "quote_status (quote5 ''sent'') = JStr ''sent'' \<or> quote_status (quote5 ''sent'') = JStr ''viewed''"
    by (simp add: quote5_def)
  have v: "newDate sample_env (quote_validUntil (quote5 ''sent'')) = Some 1892451600000"
    by (simp add: newDate_def quote5_def)
  have n: "1892451600000 < now sample_env"
    by (simp add: sample_env_def)
  have r: "rejectQuote sample_env user7n 5 (quotes_db ''sent'')
     = (Inr (quote5 ''rejected''), quotes_db ''rejected'')"
    using reject_open[OF f u s, of sample_env] by (simp only: quote5_status quotes_db_status)
  have a: "acceptQuote sample_env user7n 5 (quotes_db ''sent'')
     = (Inl (Error 400 ''This quote has expired''), quotes_db ''expired'')"
    using accept_expired[OF f u s v n] by (simp only: quotes_db_status)
  from v n r a show ?thesis by blast
qed

theorem reject_ignores_expiry_witness:
  "map_option quote_status (quotes (snd (rejectQuote sample_env user7n 5 (quotes_db ''sent''))) 5)
   = Some (JStr ''rejected'')"
  using reject_ignores_expiry by (simp add: quotes_db_def quote5_def)

subsection \<open>Creating the invoice\<close>

lemma invoice_refused_unless_accepted:
  assumes "quotes d k = Some q" and "quote_status q \<noteq> JStr ''accepted''"
  shows "\<exists>m. createInvoiceFromQuote e p k d = (Inl m, d)"
proof -
  from assms(2) have "\<not> strict_eq (quote_status q) (JStr ''accepted'')"
    by (cases "quote_status q") auto
  with assms(1) show ?thesis
    by (auto simp: createInvoiceFromQuote_def)
qed

lemma invoice_never_created:
  "\<exists>m. createInvoiceFromQuote e p k d = (Inl m, d)"
  by (auto simp: createInvoiceFromQuote_def split: option.splits)



end
